theory Spec2Isabelle
  imports Complex_Main
begin

section \<open>Super Trunfo: data model\<close>

text \<open>
  The program is one C file, \<^verbatim>\<open>super_trunfo.c\<close>. Its numbers are of three C types:
  \<^item> \<^verbatim>\<open>unsigned long\<close> (the population) is a \<^typ>\<open>nat\<close>: the program only compares it
    with zero and casts it, it never does arithmetic on it;
  \<^item> \<^verbatim>\<open>int\<close> (points of interest, attribute identifiers, menu choices) is an
    \<^typ>\<open>int\<close>: again the program only compares and casts these values;
  \<^item> \<^verbatim>\<open>double\<close> is a type variable \<open>'d\<close>. The definitions use the operators the
    source uses (\<open>+\<close>, \<open>*\<close>, \<open>/\<close>, \<open>>\<close>, the constants \<open>0.0\<close> and \<open>1.0\<close>) through
    the classes \<open>plus\<close>, \<open>times\<close>, \<open>inverse\<close>, \<open>zero\<close> and \<open>one\<close>, which carry no law
    at all, so nothing is assumed about rounding, overflow, infinities or NaN. The one
    law used is that \<open><\<close> is a strict partial order (class \<open>order\<close>, with \<open>\<le>\<close> read as
    "less than or the same value"): the comparison of IEEE 754 is one, NaN being
    comparable with nothing. The order is never assumed to be total. The cast
    \<^verbatim>\<open>(double)\<close> of an integer is a parameter \<open>cast\<close> of the functions that use it, and
    the literal \<^verbatim>\<open>1e9\<close> is the cast of the integer it denotes.
  Every theorem below therefore holds whatever the platform's floating-point arithmetic
  does; the concrete evaluations take \<open>'d\<close> to be \<^typ>\<open>real\<close> and the cast to be
  \<^const>\<open>of_int\<close>.
\<close>

record 'd FichaCidade =
  estado :: char
  codigo :: string
  cidade :: string
  populacao :: nat
  area_km2 :: 'd
  pib_bilhoes :: 'd
  pontos_turisticos :: int
  densidade :: 'd
  pib_per_capita :: 'd

subsection \<open>The attributes\<close>

text \<open>\<^verbatim>\<open>enum Atributo\<close>: six named integer constants. The functions take a plain
  \<^verbatim>\<open>int\<close>, so any integer can reach them.\<close>

definition ATR_POPULACAO :: int where "ATR_POPULACAO = 1"
definition ATR_AREA :: int where "ATR_AREA = 2"
definition ATR_PIB :: int where "ATR_PIB = 3"
definition ATR_TURISMO :: int where "ATR_TURISMO = 4"
definition ATR_DENSIDADE :: int where "ATR_DENSIDADE = 5"
definition ATR_PIB_PC :: int where "ATR_PIB_PC = 6"

text \<open>\<^verbatim>\<open>nome_atributo\<close>: the \<^verbatim>\<open>switch\<close> with its \<^verbatim>\<open>default\<close> branch. The names are the
  bytes of the source file (UTF-8).\<close>

definition nome_atributo :: "int \<Rightarrow> string" where
  "nome_atributo atr =
     (if atr = ATR_POPULACAO then ''Popula'' @ [CHR 0xC3, CHR 0xA7, CHR 0xC3, CHR 0xA3] @ ''o''
      else if atr = ATR_AREA then [CHR 0xC3, CHR 0x81] @ ''rea''
      else if atr = ATR_PIB then ''PIB''
      else if atr = ATR_TURISMO then ''Pontos Tur'' @ [CHR 0xC3, CHR 0xAD] @ ''sticos''
      else if atr = ATR_DENSIDADE then ''Densidade Demogr'' @ [CHR 0xC3, CHR 0xA1] @ ''fica''
      else if atr = ATR_PIB_PC then ''PIB per Capita''
      else ''Desconhecido'')"

subsection \<open>Derived metrics\<close>

text \<open>\<^verbatim>\<open>calcular_metricas(FichaCidade* f)\<close> writes the two derived fields through its
  pointer. The pointer is an \<open>option\<close> (\<open>None\<close> is \<^verbatim>\<open>NULL\<close>, on which the function
  returns at once) and the function returns the record the pointer leads to after the
  call. The two \<^verbatim>\<open>if\<close> statements run one after the other.\<close>

fun calcular_metricas :: "(int \<Rightarrow> 'd) \<Rightarrow> ('d::{zero,inverse,times,order}) FichaCidade option
    \<Rightarrow> 'd FichaCidade option" where
  "calcular_metricas cast None = None"
| "calcular_metricas cast (Some f) =
     (let f1 = (if area_km2 f > 0
                then f\<lparr>densidade := cast (int (populacao f)) / area_km2 f\<rparr>
                else f\<lparr>densidade := 0\<rparr>);
          f2 = (if populacao f1 > 0
                then f1\<lparr>pib_per_capita :=
                        (pib_bilhoes f1 * cast 1000000000) / cast (int (populacao f1))\<rparr>
                else f1\<lparr>pib_per_capita := 0\<rparr>)
      in Some f2)"

subsection \<open>Base value and score of an attribute\<close>

text \<open>\<^verbatim>\<open>valor_atributo_base\<close> reads through its pointer without a check, so the model
  takes the record itself.\<close>

definition valor_atributo_base :: "(int \<Rightarrow> 'd) \<Rightarrow> ('d::zero) FichaCidade \<Rightarrow> int \<Rightarrow> 'd" where
  "valor_atributo_base cast f atr =
     (if atr = ATR_POPULACAO then cast (int (populacao f))
      else if atr = ATR_AREA then area_km2 f
      else if atr = ATR_PIB then pib_bilhoes f
      else if atr = ATR_TURISMO then cast (pontos_turisticos f)
      else if atr = ATR_DENSIDADE then densidade f
      else if atr = ATR_PIB_PC then pib_per_capita f
      else 0)"

definition pontuar_atributo ::
    "(int \<Rightarrow> 'd) \<Rightarrow> ('d::{zero,one,inverse,order}) FichaCidade \<Rightarrow> int \<Rightarrow> 'd" where
  "pontuar_atributo cast f atr =
     (let v = valor_atributo_base cast f atr
      in if atr = ATR_DENSIDADE then (if v > 0 then 1 / v else 0) else v)"

section \<open>Input\<close>

text \<open>
  The program reads standard input through \<^verbatim>\<open>scanf\<close> and \<^verbatim>\<open>fgets\<close>, library code
  that is not part of the repository. Standard input is therefore a list of pending
  entries, one for each read the program makes: an entry says what each conversion the
  program uses would deliver if it were applied at this point (\<open>None\<close>: the call
  reports failure and stores nothing). Every read of the program is followed by
  \<^verbatim>\<open>limpar_buffer_stdin\<close>, which throws away the rest of the line, or is an
  \<^verbatim>\<open>fgets\<close>, which takes the line: a read consumes its entry. The empty list is the
  end of the input, where every call fails and nothing is consumed. The prompts and
  messages the program prints are not part of the model.
\<close>

record 'd entrada =
  scan_c :: "char option"        \<comment> \<open>\<^verbatim>\<open>scanf(" %c", ..)\<close>\<close>
  scan_4s :: "string option"     \<comment> \<open>\<^verbatim>\<open>scanf("%4s", ..)\<close>\<close>
  fgets_linha :: "string option" \<comment> \<open>the characters \<^verbatim>\<open>fgets\<close> would store, newline included\<close>
  scan_lu :: "nat option"        \<comment> \<open>\<^verbatim>\<open>scanf("%lu", ..)\<close>\<close>
  scan_lf :: "'d option"         \<comment> \<open>\<^verbatim>\<open>scanf("%lf", ..)\<close>\<close>
  scan_d :: "int option"         \<comment> \<open>\<^verbatim>\<open>scanf("%d", ..)\<close>\<close>

type_synonym 'd stdin = "'d entrada list"

text \<open>\<^verbatim>\<open>ler_texto\<close>: \<^verbatim>\<open>fgets\<close> stores at most \<open>tam - 1\<close> characters; the buffer is cut at
  the first newline. On failure the buffer is the empty string (when \<open>tam > 0\<close>,
  otherwise it is left as it was).\<close>

fun ler_texto :: "string \<Rightarrow> nat \<Rightarrow> 'd stdin \<Rightarrow> string \<times> 'd stdin" where
  "ler_texto buf tam [] = (if tam > 0 then [] else buf, [])"
| "ler_texto buf tam (e # es) =
     (case fgets_linha e of
        Some s \<Rightarrow> (takeWhile (\<lambda>c. c \<noteq> CHR 0x0A) (take (tam - 1) s), es)
      | None \<Rightarrow> (if tam > 0 then [] else buf, es))"

text \<open>\<^verbatim>\<open>ler_char\<close>: the letter \<^verbatim>\<open>'A'\<close> when the conversion fails.\<close>

fun ler_char :: "'d stdin \<Rightarrow> char \<times> 'd stdin" where
  "ler_char [] = (CHR ''A'', [])"
| "ler_char (e # es) = (case scan_c e of Some c \<Rightarrow> (c, es) | None \<Rightarrow> (CHR ''A'', es))"

text \<open>
  \<^verbatim>\<open>ler_ulong\<close>, \<^verbatim>\<open>ler_double\<close>, \<^verbatim>\<open>ler_int\<close>: the loop
  \<^verbatim>\<open>while (scanf(..) != 1) { limpar_buffer_stdin(); .. }\<close> asks again until a conversion
  succeeds, and the function returns the converted value (the only value its output
  parameter can hold on return). At the end of the input \<^verbatim>\<open>scanf\<close> fails for ever and
  the loop never ends: the result is \<open>None\<close>.
\<close>

fun ler_ulong :: "'d stdin \<Rightarrow> (nat \<times> 'd stdin) option" where
  "ler_ulong [] = None"
| "ler_ulong (e # es) = (case scan_lu e of Some v \<Rightarrow> Some (v, es) | None \<Rightarrow> ler_ulong es)"

fun ler_double :: "'d stdin \<Rightarrow> ('d \<times> 'd stdin) option" where
  "ler_double [] = None"
| "ler_double (e # es) = (case scan_lf e of Some v \<Rightarrow> Some (v, es) | None \<Rightarrow> ler_double es)"

fun ler_int :: "'d stdin \<Rightarrow> (int \<times> 'd stdin) option" where
  "ler_int [] = None"
| "ler_int (e # es) = (case scan_d e of Some v \<Rightarrow> Some (v, es) | None \<Rightarrow> ler_int es)"

text \<open>The code of the card in \<^verbatim>\<open>ler_ficha\<close>: \<^verbatim>\<open>scanf("%4s", f->codigo)\<close>, and the
  string \<^verbatim>\<open>"A01"\<close> when it fails.\<close>

fun ler_codigo :: "'d stdin \<Rightarrow> string \<times> 'd stdin" where
  "ler_codigo [] = (''A01'', [])"
| "ler_codigo (e # es) = (case scan_4s e of Some s \<Rightarrow> (s, es) | None \<Rightarrow> (''A01'', es))"

text \<open>\<^verbatim>\<open>ler_ficha(FichaCidade* f, ..)\<close>: nothing is read for a \<^verbatim>\<open>NULL\<close> pointer;
  otherwise the seven fields are read in the order of the source and the derived
  metrics are computed. \<open>None\<close>: one of the loops never ends. \<^verbatim>\<open>sizeof(f->cidade)\<close> is
  50.\<close>

definition ler_ficha :: "(int \<Rightarrow> 'd) \<Rightarrow> ('d::{zero,inverse,times,order}) FichaCidade option
    \<Rightarrow> 'd stdin \<Rightarrow> ('d FichaCidade option \<times> 'd stdin) option" where
  "ler_ficha cast p inp =
     (case p of
        None \<Rightarrow> Some (None, inp)
      | Some f \<Rightarrow>
          (let (c, i1) = ler_char inp;
               (cod, i2) = ler_codigo i1;
               (nome, i3) = ler_texto (cidade f) 50 i2
           in case ler_ulong i3 of None \<Rightarrow> None | Some (pop, i4) \<Rightarrow>
              (case ler_double i4 of None \<Rightarrow> None | Some (area, i5) \<Rightarrow>
              (case ler_double i5 of None \<Rightarrow> None | Some (pib, i6) \<Rightarrow>
              (case ler_int i6 of None \<Rightarrow> None | Some (pts, i7) \<Rightarrow>
                 Some (calcular_metricas cast
                         (Some (f\<lparr>estado := c, codigo := cod, cidade := nome,
                                  populacao := pop, area_km2 := area, pib_bilhoes := pib,
                                  pontos_turisticos := pts\<rparr>)), i7))))))"

text \<open>\<^verbatim>\<open>ler_atributo_distinto\<close>: the loop \<^verbatim>\<open>while (1)\<close> asks again after a choice out
  of range and after the choice \<^verbatim>\<open>diferente_de\<close>. Each round consumes at least one
  entry of the input, which is the measure of termination; \<open>None\<close> is the loop that
  never returns.\<close>

lemma ler_int_shorter: "ler_int inp = Some (a, rest) \<Longrightarrow> length rest < length inp"
  by (induction inp) (auto split: option.splits)

function ler_atributo_distinto :: "'d stdin \<Rightarrow> int \<Rightarrow> (int \<times> 'd stdin) option" where
  "ler_atributo_distinto inp diferente_de =
     (case ler_int inp of
        None \<Rightarrow> None
      | Some (a, rest) \<Rightarrow>
          if a < 1 \<or> a > 6 then ler_atributo_distinto rest diferente_de
          else if a = diferente_de then ler_atributo_distinto rest diferente_de
          else Some (a, rest))"
  by pat_completeness auto
termination
  by (relation "measure (\<lambda>(inp, d). length inp)") (auto dest: ler_int_shorter)

declare ler_atributo_distinto.simps [simp del]

section \<open>The main program\<close>

text \<open>\<^verbatim>\<open>FichaCidade c1 = {0}\<close>: every field zero, the strings empty.\<close>

definition ficha_zero :: "('d::zero) FichaCidade" where
  "ficha_zero = \<lparr>estado = CHR 0x00, codigo = [], cidade = [], populacao = 0, area_km2 = 0,
     pib_bilhoes = 0, pontos_turisticos = 0, densidade = 0, pib_per_capita = 0\<rparr>"

text \<open>The last statement of \<^verbatim>\<open>main\<close> prints the value of
  \<^verbatim>\<open>(c1_score > c2_score) ? c1.cidade : (c2_score > c1_score) ? c2.cidade : "Empate!"\<close>.
  \<open>desfecho\<close> names the branch this expression takes and \<open>texto_vencedor\<close> is the string
  of that branch.\<close>

datatype desfecho = Carta1 | Carta2 | Empate

definition desfecho_de :: "('d::order) \<Rightarrow> 'd \<Rightarrow> desfecho" where
  "desfecho_de c1_score c2_score =
     (if c1_score > c2_score then Carta1 else if c2_score > c1_score then Carta2 else Empate)"

fun texto_vencedor :: "'d FichaCidade \<Rightarrow> 'd FichaCidade \<Rightarrow> desfecho \<Rightarrow> string" where
  "texto_vencedor c1 c2 Carta1 = cidade c1"
| "texto_vencedor c1 c2 Carta2 = cidade c2"
| "texto_vencedor c1 c2 Empate = ''Empate!''"

text \<open>What \<^verbatim>\<open>main\<close> computes and prints once the cards and the attributes are read:
  its local variables of the same names, and the winner.\<close>

record 'd comparacao =
  c1_v1_base :: 'd
  c2_v1_base :: 'd
  c1_v2_base :: 'd
  c2_v2_base :: 'd
  c1_score :: 'd
  c2_score :: 'd
  resultado :: desfecho
  vencedor :: string

text \<open>The second half of \<^verbatim>\<open>main\<close>, from \<^verbatim>\<open>// Mostrar comparacao\<close> to the end. It has
  no check on the two attributes.\<close>

definition main_comparacao :: "(int \<Rightarrow> 'd) \<Rightarrow> ('d::{zero,one,plus,inverse,order}) FichaCidade
    \<Rightarrow> 'd FichaCidade \<Rightarrow> int \<Rightarrow> int \<Rightarrow> 'd comparacao" where
  "main_comparacao cast c1 c2 atr1 atr2 =
     (let s1 = pontuar_atributo cast c1 atr1 + pontuar_atributo cast c1 atr2;
          s2 = pontuar_atributo cast c2 atr1 + pontuar_atributo cast c2 atr2
      in \<lparr>c1_v1_base = valor_atributo_base cast c1 atr1,
          c2_v1_base = valor_atributo_base cast c2 atr1,
          c1_v2_base = valor_atributo_base cast c1 atr2,
          c2_v2_base = valor_atributo_base cast c2 atr2,
          c1_score = s1,
          c2_score = s2,
          resultado = desfecho_de s1 s2,
          vencedor = texto_vencedor c1 c2 (desfecho_de s1 s2)\<rparr>)"

text \<open>The choice of the two attributes in \<^verbatim>\<open>main\<close>: the first must differ from 0, the
  second from the first.\<close>

definition main_escolha :: "'d stdin \<Rightarrow> (int \<times> int \<times> 'd stdin) option" where
  "main_escolha inp =
     (case ler_atributo_distinto inp 0 of
        None \<Rightarrow> None
      | Some (atr1, i1) \<Rightarrow>
          (case ler_atributo_distinto i1 atr1 of
             None \<Rightarrow> None
           | Some (atr2, i2) \<Rightarrow> Some (atr1, atr2, i2)))"

text \<open>\<^verbatim>\<open>main\<close>: two cards are read, two attributes are chosen, the comparison is
  printed. \<open>None\<close>: the program never gets there. Both pointers handed to
  \<^verbatim>\<open>ler_ficha\<close> are addresses of local variables, hence never \<^verbatim>\<open>NULL\<close>, and
  \<^verbatim>\<open>ler_ficha\<close> hands back the pointer it was given: the catch-all cases are reached
  only by a reading loop that never ends.\<close>

definition main :: "(int \<Rightarrow> 'd) \<Rightarrow> ('d::{zero,one,plus,times,inverse,order}) stdin
    \<Rightarrow> 'd comparacao option" where
  "main cast inp =
     (case ler_ficha cast (Some ficha_zero) inp of
        Some (Some c1, i1) \<Rightarrow>
          (case ler_ficha cast (Some ficha_zero) i1 of
             Some (Some c2, i2) \<Rightarrow>
               (case main_escolha i2 of
                  Some (atr1, atr2, i3) \<Rightarrow> Some (main_comparacao cast c1 c2 atr1 atr2)
                | None \<Rightarrow> None)
           | _ \<Rightarrow> None)
      | _ \<Rightarrow> None)"

section \<open>What the specification asks of unknown attributes\<close>

text \<open>The specification names two errors. The C program has no error value: the two
  definitions below follow the words of the specification (sections 4.1 and 4.3) and are
  only compared with the functions of the program.\<close>

datatype erro = UnknownAttribute | DuplicateAttributeSelection

definition spec_nome_atributo :: "int \<Rightarrow> erro + string" where
  "spec_nome_atributo atr =
     (if 1 \<le> atr \<and> atr \<le> 6 then Inr (nome_atributo atr) else Inl UnknownAttribute)"

definition spec_baseValue :: "(int \<Rightarrow> 'd) \<Rightarrow> ('d::zero) FichaCidade \<Rightarrow> int \<Rightarrow> erro + 'd" where
  "spec_baseValue cast f atr =
     (if 1 \<le> atr \<and> atr \<le> 6 then Inr (valor_atributo_base cast f atr)
      else Inl UnknownAttribute)"

section \<open>Concrete cards and inputs\<close>

text \<open>Two cards over the reals, with their derived fields computed, and lines of input:
  a line of letters, which no numeric conversion accepts, and a line holding the decimal
  text of an integer, which every numeric conversion accepts (\<^verbatim>\<open>%lu\<close> negates a
  negative number modulo \<open>2^64\<close>, as on a platform with 64-bit \<^verbatim>\<open>unsigned long\<close>).
  The lines hold no white space.\<close>

definition carta_Alfa :: "real FichaCidade" where
  "carta_Alfa = \<lparr>estado = CHR ''A'', codigo = ''A01'', cidade = ''Alfa'', populacao = 1000000,
     area_km2 = 500, pib_bilhoes = 10, pontos_turisticos = 7, densidade = 2000,
     pib_per_capita = 10000\<rparr>"

definition carta_Beta :: "real FichaCidade" where
  "carta_Beta = \<lparr>estado = CHR ''B'', codigo = ''B02'', cidade = ''Beta'', populacao = 500000,
     area_km2 = 1000, pib_bilhoes = 5, pontos_turisticos = 3, densidade = 500,
     pib_per_capita = 10000\<rparr>"

definition linha_texto :: "string \<Rightarrow> 'd entrada" where
  "linha_texto s = \<lparr>scan_c = (case s of [] \<Rightarrow> None | c # _ \<Rightarrow> Some c),
     scan_4s = (if s = [] then None else Some (take 4 s)),
     fgets_linha = Some (s @ [CHR 0x0A]), scan_lu = None, scan_lf = None, scan_d = None\<rparr>"

definition linha_inteiro :: "string \<Rightarrow> int \<Rightarrow> real entrada" where
  "linha_inteiro s n = \<lparr>scan_c = (case s of [] \<Rightarrow> None | c # _ \<Rightarrow> Some c),
     scan_4s = (if s = [] then None else Some (take 4 s)),
     fgets_linha = Some (s @ [CHR 0x0A]),
     scan_lu = Some (nat (n mod 18446744073709551616)), scan_lf = Some (of_int n),
     scan_d = Some n\<rparr>"

text \<open>A whole run: the two cards, then the choices 1, 1 again, and 2.\<close>

definition entrada_partida :: "real stdin" where
  "entrada_partida =
     [linha_texto ''A'', linha_texto ''A01'', linha_texto ''Alfa'',
      linha_inteiro ''1000000'' 1000000, linha_inteiro ''500'' 500, linha_inteiro ''10'' 10,
      linha_inteiro ''7'' 7,
      linha_texto ''B'', linha_texto ''B02'', linha_texto ''Beta'',
      linha_inteiro ''500000'' 500000, linha_inteiro ''1000'' 1000, linha_inteiro ''5'' 5,
      linha_inteiro ''3'' 3,
      linha_inteiro ''1'' 1, linha_inteiro ''1'' 1, linha_inteiro ''2'' 2]"

text \<open>Choices: a word, 9, 3, 3 again, 4, 6.\<close>

definition entrada_escolha :: "real stdin" where
  "entrada_escolha = [linha_texto ''x'', linha_inteiro ''9'' 9, linha_inteiro ''3'' 3,
     linha_inteiro ''3'' 3, linha_inteiro ''4'' 4, linha_inteiro ''6'' 6]"

text \<open>A card typed with a negative area, output and number of points of interest.\<close>

definition entrada_negativa :: "real stdin" where
  "entrada_negativa = [linha_texto ''A'', linha_texto ''A01'', linha_texto ''Alfa'',
     linha_inteiro ''1000'' 1000, linha_inteiro ''-1'' (- 1), linha_inteiro ''-2'' (- 2),
     linha_inteiro ''-3'' (- 3)]"

definition ficha_negativa :: "real FichaCidade" where
  "ficha_negativa = \<lparr>estado = CHR ''A'', codigo = ''A01'', cidade = ''Alfa'', populacao = 1000,
     area_km2 = - 1, pib_bilhoes = - 2, pontos_turisticos = - 3, densidade = 0,
     pib_per_capita = - 2000000\<rparr>"


text \<open>A card typed with words where numbers are asked, and with a negative area, output
  and number of points of interest.\<close>

definition entrada_teimosa :: "real stdin" where
  "entrada_teimosa = [linha_texto ''C'', linha_texto ''C03'', linha_texto ''Gama'',
     linha_texto ''mil'', linha_inteiro ''1000'' 1000,
     linha_texto ''x'', linha_texto ''y'', linha_inteiro ''-1'' (- 1),
     linha_inteiro ''-2'' (- 2),
     linha_texto ''z'', linha_inteiro ''-3'' (- 3)]"

definition ficha_teimosa :: "real FichaCidade" where
  "ficha_teimosa = \<lparr>estado = CHR ''C'', codigo = ''C03'', cidade = ''Gama'', populacao = 1000,
     area_km2 = - 1, pib_bilhoes = - 2, pontos_turisticos = - 3, densidade = 0,
     pib_per_capita = - 2000000\<rparr>"

section \<open>Auxiliary facts\<close>

lemmas ATR_defs =
  ATR_POPULACAO_def ATR_AREA_def ATR_PIB_def ATR_TURISMO_def ATR_DENSIDADE_def ATR_PIB_PC_def

lemmas ex_defs = carta_Alfa_def carta_Beta_def ficha_zero_def linha_texto_def linha_inteiro_def

text \<open>The comparison is a strict partial order, so at most one card is ahead.\<close>

lemma desfecho_de_cases:
  "(desfecho_de a b = Carta1 \<longleftrightarrow> b < a) \<and>
   (desfecho_de a b = Carta2 \<longleftrightarrow> a < b) \<and>
   (desfecho_de a b = Empate \<longleftrightarrow> \<not> b < a \<and> \<not> a < b)"
  by (auto simp: desfecho_de_def dest: less_asym)

lemma calcular_metricas_Some: "\<exists>g. calcular_metricas cast (Some f) = Some g"
  by (simp add: Let_def)

lemma calcular_metricas_raw:
  "calcular_metricas cast (Some f) = Some g \<Longrightarrow>
     populacao g = populacao f \<and> area_km2 g = area_km2 f \<and> pib_bilhoes g = pib_bilhoes f
     \<and> pontos_turisticos g = pontos_turisticos f \<and> cidade g = cidade f
     \<and> estado g = estado f \<and> codigo g = codigo f"
  by (auto simp: Let_def)

text \<open>A reading loop that returns has skipped the entries its conversion refused and
  returns the value of the first entry it accepted.\<close>

lemma ler_ulong_Some:
  "ler_ulong inp = Some (v, rest) \<Longrightarrow>
     \<exists>pre e. inp = pre @ e # rest \<and> (\<forall>x\<in>set pre. scan_lu x = None) \<and> scan_lu e = Some v"
proof (induction inp)
  case Nil
  then show ?case by simp
next
  case (Cons a inp)
  show ?case
  proof (cases "scan_lu a")
    case None
    with Cons.prems have "ler_ulong inp = Some (v, rest)" by simp
    from Cons.IH[OF this] obtain pre e where
      "inp = pre @ e # rest" "\<forall>x\<in>set pre. scan_lu x = None" "scan_lu e = Some v" by blast
    with None have "a # inp = (a # pre) @ e # rest
        \<and> (\<forall>x\<in>set (a # pre). scan_lu x = None) \<and> scan_lu e = Some v"
      by simp
    then show ?thesis by blast
  next
    case (Some w)
    with Cons.prems have "w = v" "inp = rest" by simp_all
    with Some have "a # inp = [] @ a # rest
        \<and> (\<forall>x\<in>set []. scan_lu x = None) \<and> scan_lu a = Some v"
      by simp
    then show ?thesis by blast
  qed
qed

lemma ler_double_Some:
  "ler_double inp = Some (v, rest) \<Longrightarrow>
     \<exists>pre e. inp = pre @ e # rest \<and> (\<forall>x\<in>set pre. scan_lf x = None) \<and> scan_lf e = Some v"
proof (induction inp)
  case Nil
  then show ?case by simp
next
  case (Cons a inp)
  show ?case
  proof (cases "scan_lf a")
    case None
    with Cons.prems have "ler_double inp = Some (v, rest)" by simp
    from Cons.IH[OF this] obtain pre e where
      "inp = pre @ e # rest" "\<forall>x\<in>set pre. scan_lf x = None" "scan_lf e = Some v" by blast
    with None have "a # inp = (a # pre) @ e # rest
        \<and> (\<forall>x\<in>set (a # pre). scan_lf x = None) \<and> scan_lf e = Some v"
      by simp
    then show ?thesis by blast
  next
    case (Some w)
    with Cons.prems have "w = v" "inp = rest" by simp_all
    with Some have "a # inp = [] @ a # rest
        \<and> (\<forall>x\<in>set []. scan_lf x = None) \<and> scan_lf a = Some v"
      by simp
    then show ?thesis by blast
  qed
qed

lemma ler_int_Some:
  "ler_int inp = Some (v, rest) \<Longrightarrow>
     \<exists>pre e. inp = pre @ e # rest \<and> (\<forall>x\<in>set pre. scan_d x = None) \<and> scan_d e = Some v"
proof (induction inp)
  case Nil
  then show ?case by simp
next
  case (Cons a inp)
  show ?case
  proof (cases "scan_d a")
    case None
    with Cons.prems have "ler_int inp = Some (v, rest)" by simp
    from Cons.IH[OF this] obtain pre e where
      "inp = pre @ e # rest" "\<forall>x\<in>set pre. scan_d x = None" "scan_d e = Some v" by blast
    with None have "a # inp = (a # pre) @ e # rest
        \<and> (\<forall>x\<in>set (a # pre). scan_d x = None) \<and> scan_d e = Some v"
      by simp
    then show ?thesis by blast
  next
    case (Some w)
    with Cons.prems have "w = v" "inp = rest" by simp_all
    with Some have "a # inp = [] @ a # rest
        \<and> (\<forall>x\<in>set []. scan_d x = None) \<and> scan_d a = Some v"
      by simp
    then show ?thesis by blast
  qed
qed

text \<open>Conversely, a reading loop returns the value of the first entry its conversion
  accepts, whatever the value; and each of the three reads of text consumes one entry.\<close>

lemma ler_ulong_first:
  "\<forall>x\<in>set pre. scan_lu x = None \<Longrightarrow> scan_lu e = Some v \<Longrightarrow>
     ler_ulong (pre @ e # rest) = Some (v, rest)"
  by (induction pre) auto

lemma ler_double_first:
  "\<forall>x\<in>set pre. scan_lf x = None \<Longrightarrow> scan_lf e = Some v \<Longrightarrow>
     ler_double (pre @ e # rest) = Some (v, rest)"
  by (induction pre) auto

lemma ler_int_first:
  "\<forall>x\<in>set pre. scan_d x = None \<Longrightarrow> scan_d e = Some v \<Longrightarrow>
     ler_int (pre @ e # rest) = Some (v, rest)"
  by (induction pre) auto

lemma ler_char_Cons: "ler_char (t # es) = (fst (ler_char [t]), es)"
  by (cases "scan_c t") auto

lemma ler_codigo_Cons: "ler_codigo (t # es) = (fst (ler_codigo [t]), es)"
  by (cases "scan_4s t") auto

lemma ler_texto_Cons: "ler_texto buf tam (t # es) = (fst (ler_texto buf tam [t]), es)"
  by (cases "fgets_linha t") auto

lemma ler_char_consumed:
  "ler_char inp = (c, rest) \<Longrightarrow> rest \<noteq> [] \<Longrightarrow> \<exists>t. inp = t # rest \<and> c = fst (ler_char [t])"
  by (cases inp) (auto split: option.splits)

lemma ler_codigo_consumed:
  "ler_codigo inp = (c, rest) \<Longrightarrow> rest \<noteq> [] \<Longrightarrow> \<exists>t. inp = t # rest \<and> c = fst (ler_codigo [t])"
  by (cases inp) (auto split: option.splits)

lemma ler_texto_consumed:
  "ler_texto buf tam inp = (c, rest) \<Longrightarrow> rest \<noteq> [] \<Longrightarrow>
     \<exists>t. inp = t # rest \<and> c = fst (ler_texto buf tam [t])"
  by (cases inp) (auto split: option.splits)

text \<open>\<^verbatim>\<open>ler_ficha\<close> on an input of the right shape, and the shape of every input on
  which it returns.\<close>

lemma ler_ficha_returns:
  assumes "\<forall>x\<in>set q1. scan_lu x = None" "scan_lu d1 = Some pop"
    and "\<forall>x\<in>set q2. scan_lf x = None" "scan_lf d2 = Some area"
    and "\<forall>x\<in>set q3. scan_lf x = None" "scan_lf d3 = Some pib"
    and "\<forall>x\<in>set q4. scan_d x = None" "scan_d d4 = Some pts"
  shows "ler_ficha cast (Some f0)
           (s1 # s2 # s3 # q1 @ d1 # q2 @ d2 # q3 @ d3 # q4 @ d4 # resto)
         = Some (calcular_metricas cast
                   (Some (f0\<lparr>estado := fst (ler_char [s1]), codigo := fst (ler_codigo [s2]),
                            cidade := fst (ler_texto (cidade f0) 50 [s3]), populacao := pop,
                            area_km2 := area, pib_bilhoes := pib,
                            pontos_turisticos := pts\<rparr>)), resto)"
proof -
  let ?i6 = "q4 @ d4 # resto"
  let ?i5 = "q3 @ d3 # ?i6"
  let ?i4 = "q2 @ d2 # ?i5"
  let ?i3 = "q1 @ d1 # ?i4"
  have a: "ler_char (s1 # s2 # s3 # ?i3) = (fst (ler_char [s1]), s2 # s3 # ?i3)"
    by (rule ler_char_Cons)
  have b: "ler_codigo (s2 # s3 # ?i3) = (fst (ler_codigo [s2]), s3 # ?i3)"
    by (rule ler_codigo_Cons)
  have c: "ler_texto (cidade f0) 50 (s3 # ?i3) = (fst (ler_texto (cidade f0) 50 [s3]), ?i3)"
    by (rule ler_texto_Cons)
  have d: "ler_ulong ?i3 = Some (pop, ?i4)"
    using assms(1,2) by (rule ler_ulong_first)
  have e: "ler_double ?i4 = Some (area, ?i5)"
    using assms(3,4) by (rule ler_double_first)
  have f: "ler_double ?i5 = Some (pib, ?i6)"
    using assms(5,6) by (rule ler_double_first)
  have g: "ler_int ?i6 = Some (pts, resto)"
    using assms(7,8) by (rule ler_int_first)
  show ?thesis
    unfolding ler_ficha_def option.case a b c d e f g prod.case Let_def ..
qed

lemma ler_ficha_Some:
  assumes "ler_ficha cast (Some f0) inp = Some (p, rest)"
  shows "\<exists>t1 t2 t3 pre1 e1 pre2 e2 pre3 e3 pre4 e4 f.
           inp = t1 # t2 # t3 # pre1 @ e1 # pre2 @ e2 # pre3 @ e3 # pre4 @ e4 # rest
         \<and> (\<forall>x\<in>set pre1. scan_lu x = None) \<and> scan_lu e1 = Some (populacao f)
         \<and> (\<forall>x\<in>set pre2. scan_lf x = None) \<and> scan_lf e2 = Some (area_km2 f)
         \<and> (\<forall>x\<in>set pre3. scan_lf x = None) \<and> scan_lf e3 = Some (pib_bilhoes f)
         \<and> (\<forall>x\<in>set pre4. scan_d x = None) \<and> scan_d e4 = Some (pontos_turisticos f)
         \<and> p = Some f \<and> 0 \<le> int (populacao f)"
proof -
  obtain c i1 where r1: "ler_char inp = (c, i1)" by (cases "ler_char inp")
  obtain cod i2 where r2: "ler_codigo i1 = (cod, i2)" by (cases "ler_codigo i1")
  obtain nome i3 where r3: "ler_texto (cidade f0) 50 i2 = (nome, i3)"
    by (cases "ler_texto (cidade f0) 50 i2")
  from assms r1 r2 r3 obtain pop i4 where r4: "ler_ulong i3 = Some (pop, i4)"
    by (cases "ler_ulong i3") (auto simp: ler_ficha_def)
  from assms r1 r2 r3 r4 obtain area i5 where r5: "ler_double i4 = Some (area, i5)"
    by (cases "ler_double i4") (auto simp: ler_ficha_def)
  from assms r1 r2 r3 r4 r5 obtain pib i6 where r6: "ler_double i5 = Some (pib, i6)"
    by (cases "ler_double i5") (auto simp: ler_ficha_def)
  from assms r1 r2 r3 r4 r5 r6 obtain pts i7 where r7: "ler_int i6 = Some (pts, i7)"
    by (cases "ler_int i6") (auto simp: ler_ficha_def)
  let ?raw = "f0\<lparr>estado := c, codigo := cod, cidade := nome, populacao := pop,
                 area_km2 := area, pib_bilhoes := pib, pontos_turisticos := pts\<rparr>"
  from assms r1 r2 r3 r4 r5 r6 r7 have p: "p = calcular_metricas cast (Some ?raw)"
    and i7: "i7 = rest"
    by (simp_all add: ler_ficha_def del: calcular_metricas.simps)
  obtain g where g: "calcular_metricas cast (Some ?raw) = Some g"
    using calcular_metricas_Some by blast
  from calcular_metricas_raw[OF g]
  have raw: "populacao g = pop" "area_km2 g = area" "pib_bilhoes g = pib"
    "pontos_turisticos g = pts"
    by simp_all
  from ler_ulong_Some[OF r4] obtain pre1 e1 where
    d4: "i3 = pre1 @ e1 # i4" "\<forall>x\<in>set pre1. scan_lu x = None" "scan_lu e1 = Some pop" by blast
  from ler_double_Some[OF r5] obtain pre2 e2 where
    d5: "i4 = pre2 @ e2 # i5" "\<forall>x\<in>set pre2. scan_lf x = None" "scan_lf e2 = Some area" by blast
  from ler_double_Some[OF r6] obtain pre3 e3 where
    d6: "i5 = pre3 @ e3 # i6" "\<forall>x\<in>set pre3. scan_lf x = None" "scan_lf e3 = Some pib" by blast
  from ler_int_Some[OF r7] obtain pre4 e4 where
    d7: "i6 = pre4 @ e4 # i7" "\<forall>x\<in>set pre4. scan_d x = None" "scan_d e4 = Some pts" by blast
  from d4(1) have n3: "i3 \<noteq> []" by simp
  from ler_texto_consumed[OF r3 n3] obtain t3 where t3: "i2 = t3 # i3" by blast
  then have n2: "i2 \<noteq> []" by simp
  from ler_codigo_consumed[OF r2 n2] obtain t2 where t2: "i1 = t2 # i2" by blast
  then have n1: "i1 \<noteq> []" by simp
  from ler_char_consumed[OF r1 n1] obtain t1 where t1: "inp = t1 # i1" by blast
  have shape: "inp = t1 # t2 # t3 # pre1 @ e1 # pre2 @ e2 # pre3 @ e3 # pre4 @ e4 # rest"
    using t1 t2 t3 d4(1) d5(1) d6(1) d7(1) i7 by simp
  have "inp = t1 # t2 # t3 # pre1 @ e1 # pre2 @ e2 # pre3 @ e3 # pre4 @ e4 # rest
         \<and> (\<forall>x\<in>set pre1. scan_lu x = None) \<and> scan_lu e1 = Some (populacao g)
         \<and> (\<forall>x\<in>set pre2. scan_lf x = None) \<and> scan_lf e2 = Some (area_km2 g)
         \<and> (\<forall>x\<in>set pre3. scan_lf x = None) \<and> scan_lf e3 = Some (pib_bilhoes g)
         \<and> (\<forall>x\<in>set pre4. scan_d x = None) \<and> scan_d e4 = Some (pontos_turisticos g)
         \<and> p = Some g \<and> 0 \<le> int (populacao g)"
    using shape d4(2,3) d5(2,3) d6(2,3) d7(2,3) raw p g by simp
  then show ?thesis by blast
qed

text \<open>The selection loop, by induction along its own recursion.\<close>

lemma ler_atributo_distinto_range:
  "ler_atributo_distinto inp d = Some (a, rest) \<Longrightarrow> 1 \<le> a \<and> a \<le> 6 \<and> a \<noteq> d"
proof (induction inp d rule: ler_atributo_distinto.induct)
  case (1 inp d)
  from "1.prems" obtain b r where b: "ler_int inp = Some (b, r)"
    by (cases "ler_int inp") (auto simp: ler_atributo_distinto.simps[of inp d])
  show ?case
  proof (cases "b < 1 \<or> b > 6")
    case True
    with b "1.prems" have "ler_atributo_distinto r d = Some (a, rest)"
      by (simp add: ler_atributo_distinto.simps[of inp d])
    with "1.IH"(1)[OF b refl True] show ?thesis by simp
  next
    case False
    show ?thesis
    proof (cases "b = d")
      case True
      with False b "1.prems" have "ler_atributo_distinto r d = Some (a, rest)"
        by (simp add: ler_atributo_distinto.simps[of inp d])
      with "1.IH"(2)[OF b refl False True] show ?thesis by simp
    next
      case neq: False
      with False b "1.prems" have "a = b"
        by (simp add: ler_atributo_distinto.simps[of inp d])
      with False neq show ?thesis by simp
    qed
  qed
qed

text \<open>One round of the selection loop, entry by entry; and the loop does return as soon
  as the input holds an acceptable choice. At the end of the input it never returns.\<close>

lemma ler_atributo_distinto_step:
  "ler_atributo_distinto (e # es) d =
     (case scan_d e of
        None \<Rightarrow> ler_atributo_distinto es d
      | Some a \<Rightarrow> if a < 1 \<or> a > 6 \<or> a = d then ler_atributo_distinto es d else Some (a, es))"
  by (simp add: ler_atributo_distinto.simps[of "e # es" d] ler_atributo_distinto.simps[of es d]
      split: option.splits)

lemma ler_atributo_distinto_eof: "ler_atributo_distinto [] d = None"
  by (simp add: ler_atributo_distinto.simps[of "[]" d])

lemma ler_atributo_distinto_returns:
  "\<exists>e\<in>set inp. \<exists>a. scan_d e = Some a \<and> 1 \<le> a \<and> a \<le> 6 \<and> a \<noteq> d \<Longrightarrow>
     \<exists>a rest. ler_atributo_distinto inp d = Some (a, rest)"
proof (induction inp)
  case Nil
  then show ?case by simp
next
  case (Cons e es)
  show ?case
  proof (cases "\<exists>a. scan_d e = Some a \<and> 1 \<le> a \<and> a \<le> 6 \<and> a \<noteq> d")
    case True
    then show ?thesis by (auto simp: ler_atributo_distinto_step)
  next
    case False
    with Cons.prems have "\<exists>e\<in>set es. \<exists>a. scan_d e = Some a \<and> 1 \<le> a \<and> a \<le> 6 \<and> a \<noteq> d"
      by auto
    from Cons.IH[OF this] obtain a rest where r: "ler_atributo_distinto es d = Some (a, rest)"
      by blast
    from False have "ler_atributo_distinto (e # es) d = ler_atributo_distinto es d"
      by (cases "scan_d e") (auto simp: ler_atributo_distinto_step)
    with r show ?thesis by simp
  qed
qed

lemma main_escolha_distinct:
  "main_escolha inp = Some (a1, a2, rest) \<Longrightarrow>
     1 \<le> a1 \<and> a1 \<le> 6 \<and> 1 \<le> a2 \<and> a2 \<le> 6 \<and> a1 \<noteq> a2"
proof -
  assume m: "main_escolha inp = Some (a1, a2, rest)"
  then obtain i1 where r1: "ler_atributo_distinto inp 0 = Some (a1, i1)"
    and r2: "ler_atributo_distinto i1 a1 = Some (a2, rest)"
    by (cases "ler_atributo_distinto inp 0") (auto simp: main_escolha_def split: option.splits)
  from ler_atributo_distinto_range[OF r1] ler_atributo_distinto_range[OF r2]
  show ?thesis by simp
qed



lemma main_Some:
  "main cast inp = Some r \<Longrightarrow>
     \<exists>c1 c2 atr1 atr2 i1 i2 i3.
        ler_ficha cast (Some ficha_zero) inp = Some (Some c1, i1)
      \<and> ler_ficha cast (Some ficha_zero) i1 = Some (Some c2, i2)
      \<and> main_escolha i2 = Some (atr1, atr2, i3)
      \<and> r = main_comparacao cast c1 c2 atr1 atr2"
  by (auto simp: main_def split: option.splits prod.splits)

section \<open>The claims\<close>

subsection \<open>Derived metrics\<close>

text \<open>Claim C1. For every card, \<^verbatim>\<open>calcular_metricas\<close> returns normally and leaves the
  raw fields as they were; the density is population / area when the area is positive
  and 0 when the area is 0; the output per head is (output * 10^9) / population when the
  population is positive and 0 when the population is 0. (The density is 0 for every
  area that is not above zero: zero, a negative number, a NaN.)\<close>

theorem calcular_metricas_derived:
  "\<exists>g. calcular_metricas cast (Some f) = Some g
     \<and> g = f\<lparr>densidade := densidade g, pib_per_capita := pib_per_capita g\<rparr>
     \<and> (0 < area_km2 f \<longrightarrow> densidade g = cast (int (populacao f)) / area_km2 f)
     \<and> (area_km2 f = 0 \<longrightarrow> densidade g = 0)
     \<and> (\<not> 0 < area_km2 f \<longrightarrow> densidade g = 0)
     \<and> (0 < populacao f \<longrightarrow>
          pib_per_capita g = (pib_bilhoes f * cast 1000000000) / cast (int (populacao f)))
     \<and> (populacao f = 0 \<longrightarrow> pib_per_capita g = 0)"
  by (simp add: Let_def)

text \<open>The card Alfa (1 000 000 inhabitants on 500 square kilometres, an output of 10
  thousand millions) gets the density 2000 and 10 000 per head; the card of zeros gets 0
  and 0, whatever its derived fields held.\<close>

theorem calcular_metricas_derived_witness:
  "(0::real) < area_km2 carta_Alfa \<and> 0 < populacao carta_Alfa
   \<and> calcular_metricas of_int (Some (carta_Alfa\<lparr>densidade := 0, pib_per_capita := 0\<rparr>))
       = Some carta_Alfa
   \<and> densidade carta_Alfa = 2000 \<and> pib_per_capita carta_Alfa = 10000
   \<and> area_km2 (ficha_zero :: real FichaCidade) = 0
   \<and> populacao (ficha_zero :: real FichaCidade) = 0
   \<and> calcular_metricas of_int (Some (ficha_zero\<lparr>densidade := 5, pib_per_capita := 5\<rparr>))
       = Some (ficha_zero :: real FichaCidade)"
  using calcular_metricas_derived
      [of of_int "carta_Alfa\<lparr>densidade := 0, pib_per_capita := 0\<rparr>"]
    calcular_metricas_derived
      [of of_int "(ficha_zero :: real FichaCidade)\<lparr>densidade := 5, pib_per_capita := 5\<rparr>"]
  by (simp add: ex_defs Let_def)

text \<open>Claim C10. Computing the metrics a second time changes nothing: the result of the
  second run is the result of the first, in every field (and a \<^verbatim>\<open>NULL\<close> pointer stays
  one). The reason is that the derived fields depend on the raw fields only: whatever
  the two derived fields hold before the call, the result is the same.\<close>

theorem calcular_metricas_idempotent:
  "calcular_metricas cast (calcular_metricas cast p) = calcular_metricas cast p
   \<and> calcular_metricas cast (Some (f\<lparr>densidade := d, pib_per_capita := q\<rparr>))
       = calcular_metricas cast (Some f)"
  by (cases p) (simp_all add: Let_def)

subsection \<open>Scores\<close>

text \<open>Claim C2. For the attribute of density the score is 1 / density when the density
  is positive and 0 when the density is 0 (and whenever it is not above zero); for each
  of the other five attributes the score is the base value.\<close>

theorem pontuar_atributo_rule:
  "(atr = ATR_DENSIDADE \<and> 0 < densidade f \<longrightarrow> pontuar_atributo cast f atr = 1 / densidade f)
   \<and> (atr = ATR_DENSIDADE \<and> densidade f = 0 \<longrightarrow> pontuar_atributo cast f atr = 0)
   \<and> (atr = ATR_DENSIDADE \<and> \<not> 0 < densidade f \<longrightarrow> pontuar_atributo cast f atr = 0)
   \<and> (atr \<in> {ATR_POPULACAO, ATR_AREA, ATR_PIB, ATR_TURISMO, ATR_PIB_PC} \<longrightarrow>
        pontuar_atributo cast f atr = valor_atributo_base cast f atr)"
  by (auto simp: pontuar_atributo_def valor_atributo_base_def ATR_defs Let_def)

theorem pontuar_atributo_rule_witness:
  "(0::real) < densidade carta_Alfa
   \<and> pontuar_atributo of_int carta_Alfa ATR_DENSIDADE = 1 / 2000
   \<and> densidade (ficha_zero :: real FichaCidade) = 0
   \<and> pontuar_atributo of_int (ficha_zero :: real FichaCidade) ATR_DENSIDADE = 0
   \<and> ATR_PIB_PC \<in> {ATR_POPULACAO, ATR_AREA, ATR_PIB, ATR_TURISMO, ATR_PIB_PC}
   \<and> pontuar_atributo of_int carta_Alfa ATR_PIB_PC = 10000"
  using pontuar_atributo_rule[of ATR_DENSIDADE carta_Alfa of_int]
    pontuar_atributo_rule[of ATR_DENSIDADE "ficha_zero :: real FichaCidade" of_int]
    pontuar_atributo_rule[of ATR_PIB_PC carta_Alfa of_int]
  by (simp add: ex_defs ATR_defs valor_atributo_base_def)

text \<open>Claim C4. The aggregate score of each card is the score of the first attribute
  plus the score of the second, for any two attributes (distinct or not). Nothing is
  normalised: when neither attribute is the density, the aggregate is the sum of the
  two base values as they are printed.\<close>

theorem main_comparacao_aggregate:
  "c1_score (main_comparacao cast c1 c2 atr1 atr2) =
      pontuar_atributo cast c1 atr1 + pontuar_atributo cast c1 atr2
   \<and> c2_score (main_comparacao cast c1 c2 atr1 atr2) =
      pontuar_atributo cast c2 atr1 + pontuar_atributo cast c2 atr2
   \<and> (atr1 \<noteq> ATR_DENSIDADE \<and> atr2 \<noteq> ATR_DENSIDADE \<longrightarrow>
        c1_score (main_comparacao cast c1 c2 atr1 atr2) =
          c1_v1_base (main_comparacao cast c1 c2 atr1 atr2)
          + c1_v2_base (main_comparacao cast c1 c2 atr1 atr2)
      \<and> c2_score (main_comparacao cast c1 c2 atr1 atr2) =
          c2_v1_base (main_comparacao cast c1 c2 atr1 atr2)
          + c2_v2_base (main_comparacao cast c1 c2 atr1 atr2))"
  by (simp add: main_comparacao_def pontuar_atributo_def Let_def)

theorem main_comparacao_aggregate_witness:
  "(1::int) \<noteq> ATR_DENSIDADE \<and> (2::int) \<noteq> ATR_DENSIDADE
   \<and> c1_v1_base (main_comparacao of_int carta_Alfa carta_Beta 1 2) = 1000000
   \<and> c1_v2_base (main_comparacao of_int carta_Alfa carta_Beta 1 2) = 500
   \<and> c1_score (main_comparacao of_int carta_Alfa carta_Beta 1 2) = 1000500
   \<and> c2_score (main_comparacao of_int carta_Alfa carta_Beta 1 2) = 501000"
  using main_comparacao_aggregate[of of_int carta_Alfa carta_Beta 1 2]
  by (simp add: main_comparacao_def pontuar_atributo_def valor_atributo_base_def ATR_defs
      ex_defs Let_def)

subsection \<open>The outcome\<close>

text \<open>Claim C3. For every two cards and two attributes: card 1 wins when its aggregate
  score is strictly above that of card 2, card 2 wins when its score is strictly above
  that of card 1, and otherwise the result is a tie, printed as \<^verbatim>\<open>Empate!\<close>.\<close>

theorem main_comparacao_outcome:
  "(c2_score (main_comparacao cast c1 c2 atr1 atr2)
      < c1_score (main_comparacao cast c1 c2 atr1 atr2)
      \<longrightarrow> resultado (main_comparacao cast c1 c2 atr1 atr2) = Carta1
        \<and> vencedor (main_comparacao cast c1 c2 atr1 atr2) = cidade c1)
   \<and> (c1_score (main_comparacao cast c1 c2 atr1 atr2)
      < c2_score (main_comparacao cast c1 c2 atr1 atr2)
      \<longrightarrow> resultado (main_comparacao cast c1 c2 atr1 atr2) = Carta2
        \<and> vencedor (main_comparacao cast c1 c2 atr1 atr2) = cidade c2)
   \<and> (\<not> c2_score (main_comparacao cast c1 c2 atr1 atr2)
        < c1_score (main_comparacao cast c1 c2 atr1 atr2)
      \<and> \<not> c1_score (main_comparacao cast c1 c2 atr1 atr2)
        < c2_score (main_comparacao cast c1 c2 atr1 atr2)
      \<longrightarrow> resultado (main_comparacao cast c1 c2 atr1 atr2) = Empate
        \<and> vencedor (main_comparacao cast c1 c2 atr1 atr2) = ''Empate!'')"
  by (auto simp: main_comparacao_def Let_def desfecho_de_def dest: less_asym)

text \<open>Alfa wins on population and area, Beta wins on density and output per head (its
  density is the lower one), and a card ties with itself.\<close>

theorem main_comparacao_outcome_witness:
  "c2_score (main_comparacao of_int carta_Alfa carta_Beta 1 2)
     < c1_score (main_comparacao of_int carta_Alfa carta_Beta 1 2)
   \<and> resultado (main_comparacao of_int carta_Alfa carta_Beta 1 2) = Carta1
   \<and> vencedor (main_comparacao of_int carta_Alfa carta_Beta 1 2) = ''Alfa''
   \<and> c1_score (main_comparacao of_int carta_Alfa carta_Beta 5 6)
     < c2_score (main_comparacao of_int carta_Alfa carta_Beta 5 6)
   \<and> resultado (main_comparacao of_int carta_Alfa carta_Beta 5 6) = Carta2
   \<and> vencedor (main_comparacao of_int carta_Alfa carta_Beta 5 6) = ''Beta''
   \<and> \<not> c2_score (main_comparacao of_int carta_Alfa carta_Alfa 3 4)
     < c1_score (main_comparacao of_int carta_Alfa carta_Alfa 3 4)
   \<and> \<not> c1_score (main_comparacao of_int carta_Alfa carta_Alfa 3 4)
     < c2_score (main_comparacao of_int carta_Alfa carta_Alfa 3 4)
   \<and> resultado (main_comparacao of_int carta_Alfa carta_Alfa 3 4) = Empate
   \<and> vencedor (main_comparacao of_int carta_Alfa carta_Alfa 3 4) = ''Empate!''"
  using main_comparacao_outcome[of of_int carta_Alfa carta_Beta 1 2]
    main_comparacao_outcome[of of_int carta_Alfa carta_Beta 5 6]
    main_comparacao_outcome[of of_int carta_Alfa carta_Alfa 3 4]
  by (simp add: main_comparacao_def pontuar_atributo_def valor_atributo_base_def ATR_defs
      desfecho_de_def ex_defs Let_def)

text \<open>Claim C7. Swapping the two cards swaps the two aggregate scores and flips the
  winner: if card 1 won, card 2 wins after the swap, and the other way round; a tie stays
  a tie. The name printed as the winner is the same before and after.\<close>

theorem main_comparacao_swap:
  "c1_score (main_comparacao cast c2 c1 atr1 atr2) = c2_score (main_comparacao cast c1 c2 atr1 atr2)
   \<and> c2_score (main_comparacao cast c2 c1 atr1 atr2) = c1_score (main_comparacao cast c1 c2 atr1 atr2)
   \<and> (resultado (main_comparacao cast c1 c2 atr1 atr2) = Carta1
        \<longrightarrow> resultado (main_comparacao cast c2 c1 atr1 atr2) = Carta2)
   \<and> (resultado (main_comparacao cast c1 c2 atr1 atr2) = Carta2
        \<longrightarrow> resultado (main_comparacao cast c2 c1 atr1 atr2) = Carta1)
   \<and> (resultado (main_comparacao cast c1 c2 atr1 atr2) = Empate
        \<longrightarrow> resultado (main_comparacao cast c2 c1 atr1 atr2) = Empate)
   \<and> vencedor (main_comparacao cast c2 c1 atr1 atr2) = vencedor (main_comparacao cast c1 c2 atr1 atr2)"
proof -
  let ?a = "pontuar_atributo cast c1 atr1 + pontuar_atributo cast c1 atr2"
  let ?b = "pontuar_atributo cast c2 atr1 + pontuar_atributo cast c2 atr2"
  have r: "resultado (main_comparacao cast c1 c2 atr1 atr2) = desfecho_de ?a ?b"
    "resultado (main_comparacao cast c2 c1 atr1 atr2) = desfecho_de ?b ?a"
    by (simp_all add: main_comparacao_def Let_def)
  have v: "vencedor (main_comparacao cast c1 c2 atr1 atr2) = texto_vencedor c1 c2 (desfecho_de ?a ?b)"
    "vencedor (main_comparacao cast c2 c1 atr1 atr2) = texto_vencedor c2 c1 (desfecho_de ?b ?a)"
    by (simp_all add: main_comparacao_def Let_def)
  have s: "c1_score (main_comparacao cast c2 c1 atr1 atr2) = c2_score (main_comparacao cast c1 c2 atr1 atr2)"
    "c2_score (main_comparacao cast c2 c1 atr1 atr2) = c1_score (main_comparacao cast c1 c2 atr1 atr2)"
    by (simp_all add: main_comparacao_def Let_def)
  have t: "texto_vencedor c2 c1 (desfecho_de ?b ?a) = texto_vencedor c1 c2 (desfecho_de ?a ?b)"
    by (auto simp: desfecho_de_def dest: less_asym)
  show ?thesis
    unfolding r v s using t desfecho_de_cases[of ?a ?b] desfecho_de_cases[of ?b ?a] by auto
qed

theorem main_comparacao_swap_witness:
  "resultado (main_comparacao of_int carta_Alfa carta_Beta 1 2) = Carta1
   \<and> resultado (main_comparacao of_int carta_Beta carta_Alfa 1 2) = Carta2
   \<and> resultado (main_comparacao of_int carta_Alfa carta_Beta 5 6) = Carta2
   \<and> resultado (main_comparacao of_int carta_Beta carta_Alfa 5 6) = Carta1
   \<and> resultado (main_comparacao of_int carta_Alfa carta_Alfa 3 4) = Empate
   \<and> vencedor (main_comparacao of_int carta_Alfa carta_Beta 1 2) = ''Alfa''
   \<and> vencedor (main_comparacao of_int carta_Beta carta_Alfa 1 2) = ''Alfa''"
  using main_comparacao_swap[of of_int carta_Beta carta_Alfa 1 2]
    main_comparacao_swap[of of_int carta_Beta carta_Alfa 5 6]
    main_comparacao_swap[of of_int carta_Alfa carta_Alfa 3 4]
  by (simp add: main_comparacao_def pontuar_atributo_def valor_atributo_base_def ATR_defs
      desfecho_de_def ex_defs Let_def)

subsection \<open>Identifiers outside the enumeration\<close>

text \<open>Claim C5, as stated, asks that an identifier outside 1..6 makes the name lookup
  and the base-value accessor fail with \<open>UnknownAttribute\<close>. The program does not: at
  the identifier 7 the lookup returns the name \<^verbatim>\<open>Desconhecido\<close> and the accessor the
  value 0, where the specification has an error.\<close>

theorem unknown_attribute_counterexample:
  "nome_atributo 7 = ''Desconhecido''
   \<and> valor_atributo_base of_int carta_Alfa 7 = 0
   \<and> spec_nome_atributo 7 = Inl UnknownAttribute
   \<and> spec_baseValue of_int carta_Alfa 7 = Inl UnknownAttribute
   \<and> Inr (nome_atributo 7) \<noteq> spec_nome_atributo 7
   \<and> Inr (valor_atributo_base of_int carta_Alfa 7) \<noteq> spec_baseValue of_int carta_Alfa 7"
  by (simp add: nome_atributo_def valor_atributo_base_def ATR_defs spec_nome_atributo_def
      spec_baseValue_def)

text \<open>Claim C5, amended. For every identifier outside 1..6 the name lookup returns the
  default name \<^verbatim>\<open>Desconhecido\<close> and the base-value accessor returns the default value
  0, for every card; neither signals an error.\<close>

theorem unknown_attribute_default:
  "atr < 1 \<or> 6 < atr \<Longrightarrow>
     nome_atributo atr = ''Desconhecido'' \<and> valor_atributo_base cast f atr = 0"
  by (auto simp: nome_atributo_def valor_atributo_base_def ATR_defs)

theorem unknown_attribute_default_witness:
  "((0::int) < 1 \<or> 6 < (0::int)) \<and> nome_atributo 0 = ''Desconhecido''
   \<and> valor_atributo_base of_int carta_Beta 0 = 0
   \<and> ((99::int) < 1 \<or> 6 < (99::int)) \<and> nome_atributo 99 = ''Desconhecido''
   \<and> valor_atributo_base of_int carta_Beta 99 = 0"
  using unknown_attribute_default[of 0 of_int carta_Beta]
    unknown_attribute_default[of 99 of_int carta_Beta] by simp

subsection \<open>The same attribute twice\<close>




subsection \<open>Choosing the attributes\<close>

text \<open>Claim C8. Whenever the selection loop returns, the identifier it returns lies in
  1..6 and differs from the identifier it was given. Hence the two attributes chosen in
  \<^verbatim>\<open>main\<close> are in range and distinct, and every comparison the program prints is one
  of two cards on two distinct attributes in range.\<close>

theorem ler_atributo_distinto_result:
  "(ler_atributo_distinto inp diferente_de = Some (a, rest)
      \<longrightarrow> 1 \<le> a \<and> a \<le> 6 \<and> a \<noteq> diferente_de)
   \<and> (main_escolha inp2 = Some (atr1, atr2, rest2)
      \<longrightarrow> 1 \<le> atr1 \<and> atr1 \<le> 6 \<and> 1 \<le> atr2 \<and> atr2 \<le> 6 \<and> atr1 \<noteq> atr2)
   \<and> (main cast inp3 = Some r
      \<longrightarrow> (\<exists>c1 c2 a1 a2. 1 \<le> a1 \<and> a1 \<le> 6 \<and> 1 \<le> a2 \<and> a2 \<le> 6 \<and> a1 \<noteq> a2
            \<and> r = main_comparacao cast c1 c2 a1 a2))"
proof -
  have "\<exists>c1 c2 a1 a2. 1 \<le> a1 \<and> a1 \<le> 6 \<and> 1 \<le> a2 \<and> a2 \<le> 6 \<and> a1 \<noteq> a2
          \<and> r = main_comparacao cast c1 c2 a1 a2"
    if "main cast inp3 = Some r"
  proof -
    from main_Some[OF that] obtain c1 c2 a1 a2 i1 i2 i3 where
      "ler_ficha cast (Some ficha_zero) i1 = Some (Some c2, i2)" and
      e: "main_escolha i2 = Some (a1, a2, i3)" and r: "r = main_comparacao cast c1 c2 a1 a2"
      by blast
    from main_escolha_distinct[OF e] r show ?thesis by blast
  qed
  then show ?thesis
    using ler_atributo_distinto_range[of inp diferente_de a rest]
      main_escolha_distinct[of inp2 atr1 atr2 rest2] by blast
qed

text \<open>After a word, a 9 and two 3s, the loop that must avoid 3 returns 4. In the same
  input \<^verbatim>\<open>main\<close> chooses 3 and then 4. In the whole run, where 1 is typed twice, the
  comparison is the one on the attributes 1 and 2.\<close>

theorem ler_atributo_distinto_result_witness:
  "ler_atributo_distinto entrada_escolha 3 = Some (4, drop 5 entrada_escolha)
   \<and> (1::int) \<le> 4 \<and> (4::int) \<le> 6 \<and> (4::int) \<noteq> 3
   \<and> main_escolha entrada_escolha = Some (3, 4, drop 5 entrada_escolha)
   \<and> main of_int entrada_partida = Some (main_comparacao of_int carta_Alfa carta_Beta 1 2)"
  using ler_atributo_distinto_result
      [of entrada_escolha 3 4 "drop 5 entrada_escolha" entrada_escolha 3 4
          "drop 5 entrada_escolha" of_int entrada_partida
          "main_comparacao of_int carta_Alfa carta_Beta 1 2"]
  by (simp add: main_def entrada_partida_def entrada_escolha_def ler_ficha_def
      main_escolha_def ex_defs Let_def ler_atributo_distinto.simps)

subsection \<open>The sign of the raw fields\<close>

text \<open>Claim C9, as stated, asks that every card the input layer hands on has no negative
  raw field. The program checks no sign: a card typed with the area -1, the output -2
  and -3 points of interest is read at the first attempt, with no entry asked again,
  and handed on with these values.\<close>

theorem ler_ficha_negative_counterexample:
  "ler_ficha of_int (Some ficha_zero) entrada_negativa = Some (Some ficha_negativa, [])
   \<and> length entrada_negativa = 7
   \<and> area_km2 ficha_negativa < 0 \<and> pib_bilhoes ficha_negativa < 0
   \<and> pontos_turisticos ficha_negativa < 0"
  by (simp add: ler_ficha_def entrada_negativa_def ficha_negativa_def ficha_zero_def
      linha_texto_def linha_inteiro_def Let_def)

text \<open>Claim C9, amended. Every card the input layer hands on has a population that is an
  integer \<open>\<ge> 0\<close> (it is unsigned). The input layer asks again exactly while a
  conversion fails and checks no sign: after the three reads of text, the population,
  the area, the economic output and the number of points of interest are each the value
  of the first entry that \<^verbatim>\<open>%lu\<close>, \<^verbatim>\<open>%lf\<close>, \<^verbatim>\<open>%lf\<close> and \<^verbatim>\<open>%d\<close> accept, the
  entries skipped being the ones refused. So every input on which a card is returned has
  this shape, and on every input of this shape the card is returned with these values,
  whatever their sign: area, output and points of interest may be negative.\<close>

theorem ler_ficha_fields:
  "(ler_ficha cast (Some f0) inp = Some (p, rest) \<longrightarrow>
      (\<exists>t1 t2 t3 pre1 e1 pre2 e2 pre3 e3 pre4 e4 f.
           inp = t1 # t2 # t3 # pre1 @ e1 # pre2 @ e2 # pre3 @ e3 # pre4 @ e4 # rest
         \<and> (\<forall>x\<in>set pre1. scan_lu x = None) \<and> scan_lu e1 = Some (populacao f)
         \<and> (\<forall>x\<in>set pre2. scan_lf x = None) \<and> scan_lf e2 = Some (area_km2 f)
         \<and> (\<forall>x\<in>set pre3. scan_lf x = None) \<and> scan_lf e3 = Some (pib_bilhoes f)
         \<and> (\<forall>x\<in>set pre4. scan_d x = None) \<and> scan_d e4 = Some (pontos_turisticos f)
         \<and> p = Some f \<and> 0 \<le> int (populacao f)))
   \<and> ((\<forall>x\<in>set q1. scan_lu x = None) \<and> scan_lu d1 = Some pop
      \<and> (\<forall>x\<in>set q2. scan_lf x = None) \<and> scan_lf d2 = Some area
      \<and> (\<forall>x\<in>set q3. scan_lf x = None) \<and> scan_lf d3 = Some pib
      \<and> (\<forall>x\<in>set q4. scan_d x = None) \<and> scan_d d4 = Some pts
      \<longrightarrow> ler_ficha cast (Some g0)
            (s1 # s2 # s3 # q1 @ d1 # q2 @ d2 # q3 @ d3 # q4 @ d4 # resto)
          = Some (calcular_metricas cast
                    (Some (g0\<lparr>estado := fst (ler_char [s1]), codigo := fst (ler_codigo [s2]),
                             cidade := fst (ler_texto (cidade g0) 50 [s3]), populacao := pop,
                             area_km2 := area, pib_bilhoes := pib,
                             pontos_turisticos := pts\<rparr>)), resto))"
  using ler_ficha_Some[of cast f0 inp p rest]
    ler_ficha_returns[of q1 d1 pop q2 d2 area q3 d3 pib q4 d4 pts cast g0 s1 s2 s3 resto]
  by blast

text \<open>A card typed with a word before the population, two words before the area and a
  word before the points of interest, and with the area -1, the output -2 and -3 points
  of interest: the words are asked again, the negative numbers are taken.\<close>

theorem ler_ficha_fields_witness:
  "map scan_lu [linha_texto ''mil'' :: real entrada] = [None]
   \<and> scan_lu (linha_inteiro ''1000'' 1000) = Some 1000
   \<and> map scan_lf [linha_texto ''x'' :: real entrada, linha_texto ''y''] = [None, None]
   \<and> scan_lf (linha_inteiro ''-1'' (- 1)) = Some (- 1)
   \<and> scan_lf (linha_inteiro ''-2'' (- 2)) = Some (- 2)
   \<and> map scan_d [linha_texto ''z'' :: real entrada] = [None]
   \<and> scan_d (linha_inteiro ''-3'' (- 3)) = Some (- 3)
   \<and> ler_ficha of_int (Some ficha_zero) entrada_teimosa = Some (Some ficha_teimosa, [])
   \<and> area_km2 ficha_teimosa < 0 \<and> pib_bilhoes ficha_teimosa < 0
   \<and> pontos_turisticos ficha_teimosa < 0"
  using ler_ficha_fields
      [where cast = of_int and ?f0.0 = ficha_zero and inp = entrada_teimosa
         and p = "Some ficha_teimosa" and rest = "[]"
         and ?q1.0 = "[linha_texto ''mil'']" and ?d1.0 = "linha_inteiro ''1000'' 1000"
         and pop = 1000
         and ?q2.0 = "[linha_texto ''x'', linha_texto ''y'']"
         and ?d2.0 = "linha_inteiro ''-1'' (- 1)" and area = "- 1"
         and ?q3.0 = "[]" and ?d3.0 = "linha_inteiro ''-2'' (- 2)" and pib = "- 2"
         and ?q4.0 = "[linha_texto ''z'']" and ?d4.0 = "linha_inteiro ''-3'' (- 3)"
         and pts = "- 3"
         and ?g0.0 = ficha_zero and ?s1.0 = "linha_texto ''C''" and ?s2.0 = "linha_texto ''C03''"
         and ?s3.0 = "linha_texto ''Gama''" and resto = "[]"]
  by (simp add: ler_ficha_def entrada_teimosa_def ficha_teimosa_def ex_defs Let_def)


end
